theory Spec2Isabelle
  imports Main "HOL-Library.AList"
begin

section \<open>Python values, exceptions and tensors\<close>

text \<open>
  The development embeds \<^verbatim>\<open>cherry/experience_replay.py\<close>: the class
  \<^verbatim>\<open>Transition\<close> and the class \<^verbatim>\<open>ExperienceReplay\<close>.
  Every exception the source can raise is a value of \<open>py_error\<close>; a method that
  can raise returns \<open>py_error + 'a\<close> with \<open>Inl\<close> for the exception.
\<close>

datatype py_error =
    AttributeError
  | IndexError
  | AssertionError
  | ValueError
  | RuntimeError
  | UnboundLocalError
  | TypeError
  | FileNotFoundError

datatype dtype = Float16 | Float32 | Float64 | Int64 | UInt8

text \<open>
  A tensor of the numeric backend: its shape, its elements in row-major order, the device
  it lives on and its element type. Elements are integers: the claims only read the
  terminal flags (0 or 1), and rounding under a precision cast is not modelled, a cast
  changes the element type only.
\<close>

record tensor =
  shape :: "nat list"
  elems :: "int list"
  dev :: string
  dtp :: dtype

definition numel :: "nat list \<Rightarrow> nat" where
  "numel s = prod_list s"

definition is_floating_point :: "tensor \<Rightarrow> bool" where
  "is_floating_point t = (dtp t = Float16 \<or> dtp t = Float32 \<or> dtp t = Float64)"

text \<open>\<^verbatim>\<open>t.to(device, dtype, non_blocking)\<close>: \<open>None\<close> leaves the component as it is.\<close>

definition tensor_to :: "string option \<Rightarrow> dtype option \<Rightarrow> tensor \<Rightarrow> tensor" where
  "tensor_to d p t =
     t\<lparr>dev := (case d of None \<Rightarrow> dev t | Some d' \<Rightarrow> d'),
       dtp := (case p of None \<Rightarrow> dtp t | Some p' \<Rightarrow> p')\<rparr>"



text \<open>\<^verbatim>\<open>t.shape[0]\<close>: a 0-dimensional tensor has the empty shape tuple.\<close>

definition shape0 :: "tensor \<Rightarrow> py_error + nat" where
  "shape0 t = (case shape t of [] \<Rightarrow> Inl IndexError | n # _ \<Rightarrow> Inr n)"

text \<open>\<^verbatim>\<open>t[i]\<close> for \<open>0 \<le> i\<close>: the \<open>i\<close>-th slice along the leading axis.\<close>

definition tensor_index :: "tensor \<Rightarrow> nat \<Rightarrow> py_error + tensor" where
  "tensor_index t i =
     (case shape t of
        [] \<Rightarrow> Inl IndexError
      | n # s \<Rightarrow>
          if i < n
          then Inr (t\<lparr>shape := s, elems := take (numel s) (drop (i * numel s) (elems t))\<rparr>)
          else Inl IndexError)"

definition unsqueeze0 :: "tensor \<Rightarrow> tensor" where
  "unsqueeze0 t = t\<lparr>shape := 1 # shape t\<rparr>"

text \<open>\<^verbatim>\<open>bool(t)\<close> is defined for a tensor of exactly one element.\<close>

definition tensor_bool :: "tensor \<Rightarrow> py_error + bool" where
  "tensor_bool t = (case elems t of [x] \<Rightarrow> Inr (x \<noteq> 0) | _ \<Rightarrow> Inl RuntimeError)"

text \<open>\<^verbatim>\<open>t.sum().int().item()\<close>.\<close>

definition tensor_sum :: "tensor \<Rightarrow> int" where
  "tensor_sum t = sum_list (elems t)"

text \<open>
  \<^verbatim>\<open>th.cat(values, dim=0)\<close>: every tensor has at least one axis and all agree on
  the trailing axes; the result takes device and element type from the first one.
\<close>

definition tensor_cat :: "tensor list \<Rightarrow> py_error + tensor" where
  "tensor_cat ts =
     (case ts of
        [] \<Rightarrow> Inl RuntimeError
      | t # _ \<Rightarrow>
          if shape t = [] \<or> (\<exists>u \<in> set ts. shape u = [] \<or> tl (shape u) \<noteq> tl (shape t))
          then Inl RuntimeError
          else Inr (t\<lparr>shape := sum_list (map (\<lambda>u. hd (shape u)) ts) # tl (shape t),
                      elems := concat (map elems ts)\<rparr>))"

text \<open>\<^verbatim>\<open>t.view(*s)\<close>: the number of elements must not change.\<close>

definition tensor_view :: "nat list \<Rightarrow> tensor \<Rightarrow> py_error + tensor" where
  "tensor_view s t = (if numel s = numel (shape t) then Inr (t\<lparr>shape := s\<rparr>) else Inl RuntimeError)"

text \<open>Iterating a tensor yields its slices along the leading axis.\<close>

definition tensor_rows :: "tensor \<Rightarrow> tensor list" where
  "tensor_rows t =
     (case shape t of
        [] \<Rightarrow> []
      | n # s \<Rightarrow> map (\<lambda>i. t\<lparr>shape := s, elems := take (numel s) (drop (i * numel s) (elems t))\<rparr>) [0..<n])"

text \<open>
  The values a field or an attribute can hold: \<open>None\<close>, a string, a device, the list
  of field names, a tensor, or an opaque object (neither a tensor nor convertible to one, and not
  subscriptable).
\<close>

datatype pyval =
    NoneV
  | StrV string
  | DeviceV string
  | NamesV "string list"
  | TensorV tensor
  | ObjectV nat

text \<open>
  Modelled from the spec: \<^verbatim>\<open>cherry._utils._min_size\<close> is not among the sources.
  It gives the minimal viewable size of a tensor, so that non-scalar per-Record shapes
  are preserved after stacking: leading singleton axes are dropped, and a shape that
  holds nothing else is the one-element shape.
\<close>

definition min_size :: "pyval \<Rightarrow> py_error + nat list" where
  "min_size v =
     (case v of
        TensorV t \<Rightarrow>
          (let s = dropWhile (\<lambda>d. d = 1) (shape t) in Inr (if s = [] then [1] else s))
      | _ \<Rightarrow> Inl AttributeError)"

text \<open>
  Modelled from the spec: \<^verbatim>\<open>cherry._utils._istensorable\<close> is not among the sources.
  It is the backend's \<open>is_array_convertible\<close>, the predicate asked before a value is
  converted. Of the values modelled here only tensors are array-convertible.
\<close>

definition istensorable :: "pyval \<Rightarrow> bool" where
  "istensorable v = (case v of TensorV _ \<Rightarrow> True | _ \<Rightarrow> False)"

text \<open>
  Modelled from the spec: \<^verbatim>\<open>cherry.totensor\<close> is not among the sources. It is the
  backend's \<open>to_array\<close>, which converts an array-convertible value into a backend
  array: a backend array converts to itself, and a value that is not array-convertible is
  refused.
\<close>

definition totensor :: "pyval \<Rightarrow> py_error + tensor" where
  "totensor v = (case v of TensorV t \<Rightarrow> Inr t | _ \<Rightarrow> Inl TypeError)"

section \<open>Transition\<close>

text \<open>
  A \<^verbatim>\<open>Transition\<close> object: \<open>field_names\<close> is the list \<^verbatim>\<open>self._fields\<close>,
  \<open>attrs\<close> the other instance attributes in the order they were first assigned
  (\<^verbatim>\<open>device\<close> among them). Rebinding the name \<^verbatim>\<open>_fields\<close> itself to
  another object is outside the model.
\<close>

record transition =
  field_names :: "string list"
  attrs :: "(string \<times> pyval) list"

definition reserved_names :: "string list" where
  "reserved_names = [''device'', ''_fields'']"

definition core_fields :: "string list" where
  "core_fields = [''state'', ''action'', ''reward'', ''next_state'', ''done'']"

text \<open>\<^verbatim>\<open>getattr(t, name)\<close> on instance data; methods are not modelled.\<close>

definition getattr :: "transition \<Rightarrow> string \<Rightarrow> py_error + pyval" where
  "getattr t name =
     (if name = ''_fields'' then Inr (NamesV (field_names t))
      else case map_of (attrs t) name of
             Some v \<Rightarrow> Inr v
           | None \<Rightarrow> Inl AttributeError)"

text \<open>
  \<^verbatim>\<open>Transition.__setattr__\<close>: a name that is not reserved and not yet tracked is
  appended to \<^verbatim>\<open>_fields\<close>; then the attribute is set.
\<close>

definition setattr :: "string \<Rightarrow> pyval \<Rightarrow> transition \<Rightarrow> transition" where
  "setattr name v t =
     (let t' = (if name \<notin> set reserved_names \<and> name \<notin> set (field_names t)
                then t\<lparr>field_names := field_names t @ [name]\<rparr> else t)
      in t'\<lparr>attrs := AList.update name v (attrs t')\<rparr>)"

text \<open>
  \<^verbatim>\<open>Transition.__init__\<close>. \<open>infos\<close> is the keyword dictionary, in the order
  the keywords were given.
\<close>

definition Transition ::
  "pyval \<Rightarrow> pyval \<Rightarrow> pyval \<Rightarrow> pyval \<Rightarrow> pyval \<Rightarrow> pyval \<Rightarrow> (string \<times> pyval) list \<Rightarrow> transition" where
  "Transition state' action' reward' next_state' done' device' infos =
     (let t0 = \<lparr>field_names = core_fields, attrs = []\<rparr>;
          t1 = fold (\<lambda>(key, val). setattr key val)
                 (zip core_fields [state', action', reward', next_state', done']) t0;
          t2 = t1\<lparr>field_names := field_names t1 @ map fst infos\<rparr>;
          t3 = fold (\<lambda>(key, val). setattr key val) infos t2
      in setattr ''device'' device' t3)"

text \<open>
  The call \<^verbatim>\<open>Transition(**kw)\<close>: the five core parameters are required, \<open>device\<close>
  defaults to \<open>None\<close>, every other keyword goes to \<open>infos\<close>.
\<close>

definition call_Transition :: "(string \<times> pyval) list \<Rightarrow> py_error + transition" where
  "call_Transition kw =
     (if list_all (\<lambda>k. map_of kw k \<noteq> None) core_fields
      then Inr (Transition
                  (the (map_of kw ''state'')) (the (map_of kw ''action''))
                  (the (map_of kw ''reward'')) (the (map_of kw ''next_state''))
                  (the (map_of kw ''done''))
                  (case map_of kw ''device'' of None \<Rightarrow> NoneV | Some d \<Rightarrow> d)
                  (filter (\<lambda>(k, _). k \<notin> set (''device'' # core_fields)) kw))
      else Inl TypeError)"


section \<open>The object store\<close>

text \<open>
  Objects live in a store and are named by their address (the position in the store); a
  constructor call appends a new object, so a new address is never one in use. An
  \<^verbatim>\<open>ExperienceReplay\<close> holds the addresses of its Transitions in
  \<^verbatim>\<open>_storage\<close>; the list itself is owned by the replay.
\<close>

record replay =
  storage :: "nat list"
  vectorized :: bool
  device :: "string option"

record heap =
  transitions :: "transition list"
  replays :: "replay list"

definition new_transition :: "transition \<Rightarrow> heap \<Rightarrow> nat \<times> heap" where
  "new_transition t h = (length (transitions h), h\<lparr>transitions := transitions h @ [t]\<rparr>)"

text \<open>\<^verbatim>\<open>ExperienceReplay(storage, device, vectorized)\<close>.\<close>

definition ExperienceReplay :: "nat list \<Rightarrow> string option \<Rightarrow> bool \<Rightarrow> heap \<Rightarrow> nat \<times> heap" where
  "ExperienceReplay storage' device' vectorized' h =
     (length (replays h),
      h\<lparr>replays := replays h @ [\<lparr>storage = storage', vectorized = vectorized', device = device'\<rparr>]\<rparr>)"

subsection \<open>Transfer of a Transition\<close>

text \<open>The loop of \<^verbatim>\<open>Transition._apply\<close> that fills the keyword dictionary.\<close>

fun apply_fields ::
  "(tensor \<Rightarrow> tensor) \<Rightarrow> transition \<Rightarrow> string list \<Rightarrow> (string \<times> pyval) list
     \<Rightarrow> py_error + (string \<times> pyval) list" where
  "apply_fields fn t [] kw = Inr kw"
| "apply_fields fn t (field # rest) kw =
     (case getattr t field of
        Inl e \<Rightarrow> Inl e
      | Inr v \<Rightarrow>
          apply_fields fn t rest
            (AList.update field (case v of TensorV x \<Rightarrow> TensorV (fn x) | _ \<Rightarrow> v) kw))"

text \<open>\<^verbatim>\<open>Transition._apply(fn, device)\<close>: returns the address of the new object.\<close>

definition transition_apply ::
  "heap \<Rightarrow> nat \<Rightarrow> (tensor \<Rightarrow> tensor) \<Rightarrow> pyval \<Rightarrow> py_error + (nat \<times> heap)" where
  "transition_apply h self fn device' =
     (let t = transitions h ! self in
      case (if device' = NoneV then getattr t ''device'' else Inr device') of
        Inl e \<Rightarrow> Inl e
      | Inr d \<Rightarrow>
          (case apply_fields fn t (field_names t) [(''device'', d)] of
             Inl e \<Rightarrow> Inl e
           | Inr kw \<Rightarrow>
               (case call_Transition kw of
                  Inl e \<Rightarrow> Inl e
                | Inr t' \<Rightarrow> Inr (new_transition t' h))))"

text \<open>
  \<^verbatim>\<open>Transition.to\<close>, with the arguments as \<^verbatim>\<open>_parse_to\<close> returns them: a
  device or \<open>None\<close>, an element type or \<open>None\<close>.
\<close>

definition transition_to ::
  "heap \<Rightarrow> nat \<Rightarrow> string option \<Rightarrow> dtype option \<Rightarrow> py_error + (nat \<times> heap)" where
  "transition_to h self device' dtype' =
     transition_apply h self
       (\<lambda>t. tensor_to device' (if is_floating_point t then dtype' else None) t)
       (case device' of None \<Rightarrow> NoneV | Some d \<Rightarrow> DeviceV d)"






section \<open>ExperienceReplay\<close>

subsection \<open>Storage, indexing and batched access\<close>

text \<open>Sequencing of calls that may raise: the first exception ends the computation.\<close>

fun bind_result :: "py_error + 'a \<Rightarrow> ('a \<Rightarrow> py_error + 'b) \<Rightarrow> py_error + 'b" where
  "bind_result (Inl e) f = Inl e"
| "bind_result (Inr x) f = f x"

fun mapM :: "('a \<Rightarrow> py_error + 'b) \<Rightarrow> 'a list \<Rightarrow> py_error + 'b list" where
  "mapM f [] = Inr []"
| "mapM f (x # xs) =
     (case f x of
        Inl e \<Rightarrow> Inl e
      | Inr y \<Rightarrow> (case mapM f xs of Inl e \<Rightarrow> Inl e | Inr ys \<Rightarrow> Inr (y # ys)))"

text \<open>\<^verbatim>\<open>len(self)\<close>.\<close>

definition len :: "heap \<Rightarrow> nat \<Rightarrow> nat" where
  "len h self = length (storage (replays h ! self))"

text \<open>Indexing a Python list with an integer: a negative index counts from the end.\<close>

definition py_index :: "'a list \<Rightarrow> int \<Rightarrow> py_error + 'a" where
  "py_index xs i =
     (if 0 \<le> i \<and> i < int (length xs) then Inr (xs ! nat i)
      else if i < 0 \<and> - int (length xs) \<le> i then Inr (xs ! nat (int (length xs) + i))
      else Inl IndexError)"

text \<open>\<^verbatim>\<open>self[key]\<close> for an integer key.\<close>

definition getitem :: "heap \<Rightarrow> nat \<Rightarrow> int \<Rightarrow> py_error + nat" where
  "getitem h self key = py_index (storage (replays h ! self)) key"

definition as_tensor :: "pyval \<Rightarrow> py_error + tensor" where
  "as_tensor v = (case v of TensorV t \<Rightarrow> Inr t | _ \<Rightarrow> Inl TypeError)"

text \<open>
  \<^verbatim>\<open>ExperienceReplay._access_property(name)\<close>, which the dynamic accessor
  \<^verbatim>\<open>replay.name()\<close> calls. The handler of the list comprehension re-raises
  \<^verbatim>\<open>AttributeError\<close> with a message of its own.
\<close>

definition access_property :: "heap \<Rightarrow> nat \<Rightarrow> string \<Rightarrow> py_error + tensor" where
  "access_property h self name =
     (case mapM (\<lambda>sars. getattr (transitions h ! sars) name) (storage (replays h ! self)) of
        Inl e \<Rightarrow> Inl e
      | Inr values \<Rightarrow>
          (case values of
             [] \<Rightarrow> Inl IndexError
           | v # _ \<Rightarrow>
               bind_result (min_size v) (\<lambda>true_size.
               bind_result (mapM as_tensor values) (\<lambda>ts.
               bind_result (tensor_cat ts) (\<lambda>c.
                 tensor_view (length values # true_size) c)))))"

text \<open>\<^verbatim>\<open>ExperienceReplay.__add__\<close> and \<^verbatim>\<open>ExperienceReplay.__iadd__\<close>.\<close>

definition add :: "heap \<Rightarrow> nat \<Rightarrow> nat \<Rightarrow> py_error + (nat \<times> heap)" where
  "add h self other =
     (let r = replays h ! self; r' = replays h ! other
      in if vectorized r \<noteq> vectorized r' then Inl AssertionError
         else Inr (ExperienceReplay (storage r @ storage r') (device r) (vectorized r) h))"

definition iadd :: "heap \<Rightarrow> nat \<Rightarrow> nat \<Rightarrow> py_error + (nat \<times> heap)" where
  "iadd h self other =
     (let r = replays h ! self; r' = replays h ! other
      in Inr (self, h\<lparr>replays := (replays h)[self := r\<lparr>storage := storage r @ storage r'\<rparr>]\<rparr>))"

text \<open>\<^verbatim>\<open>ExperienceReplay.empty\<close>.\<close>

definition empty_replay :: "heap \<Rightarrow> nat \<Rightarrow> heap" where
  "empty_replay h self =
     h\<lparr>replays := (replays h)[self := (replays h ! self)\<lparr>storage := []\<rparr>]\<rparr>"

subsection \<open>Persistence\<close>

text \<open>
  The file system maps a path to what the serializer wrote there. \<^verbatim>\<open>th.save\<close>
  writes the Transitions of the list by value; \<^verbatim>\<open>th.load\<close> builds new objects
  from them and raises when there is no such file. The byte format is the backend's and
  is not modelled.
\<close>

type_synonym files = "string \<Rightarrow> transition list option"

definition save :: "heap \<Rightarrow> nat \<Rightarrow> string \<Rightarrow> files \<Rightarrow> files" where
  "save h self path fs =
     fs(path \<mapsto> map (\<lambda>sars. transitions h ! sars) (storage (replays h ! self)))"

definition load :: "heap \<Rightarrow> nat \<Rightarrow> string \<Rightarrow> files \<Rightarrow> py_error + heap" where
  "load h self path fs =
     (case fs path of
        None \<Rightarrow> Inl FileNotFoundError
      | Some ts \<Rightarrow>
          Inr (h\<lparr>transitions := transitions h @ ts,
                 replays := (replays h)[self := (replays h ! self)
                   \<lparr>storage := [length (transitions h)..<length (transitions h) + length ts]\<rparr>]\<rparr>))"

subsection \<open>Appending\<close>

text \<open>\<^verbatim>\<open>t.reshape(num_envs, -1)\<close>.\<close>

definition reshape_rows :: "nat \<Rightarrow> tensor \<Rightarrow> py_error + tensor" where
  "reshape_rows n t =
     (let m = numel (shape t)
      in if n = 0 \<or> m mod n \<noteq> 0 then Inl RuntimeError
         else Inr (t\<lparr>shape := [n, m div n]\<rparr>))"

definition convert_infos :: "(string \<times> pyval) list \<Rightarrow> py_error + (string \<times> pyval) list" where
  "convert_infos infos =
     mapM (\<lambda>(key, v). if istensorable v
                       then bind_result (totensor v) (\<lambda>t. Inr (key, TensorV t))
                       else Inr (key, v)) infos"

text \<open>
  \<^verbatim>\<open>ExperienceReplay.append\<close>: the new Transition is built, transferred to the
  replay's device (a second new object) and that one is appended.
\<close>

definition append_replay ::
  "heap \<Rightarrow> nat \<Rightarrow> pyval \<Rightarrow> pyval \<Rightarrow> pyval \<Rightarrow> pyval \<Rightarrow> pyval \<Rightarrow> (string \<times> pyval) list
     \<Rightarrow> py_error + heap" where
  "append_replay h self state' action' reward' next_state' done' infos =
     bind_result (convert_infos infos) (\<lambda>infos'.
     bind_result (totensor state') (\<lambda>s.
     bind_result (totensor action') (\<lambda>a.
     bind_result (totensor reward') (\<lambda>r.
     bind_result (totensor next_state') (\<lambda>ns.
     bind_result (totensor done') (\<lambda>d.
     bind_result
       (if vectorized (replays h ! self)
        then bind_result (shape0 s) (\<lambda>num_envs.
             bind_result (reshape_rows num_envs a) (\<lambda>a'.
             bind_result (reshape_rows num_envs r) (\<lambda>r'.
             bind_result (reshape_rows num_envs d) (\<lambda>d'. Inr (a', r', d')))))
        else Inr (a, r, d)) (\<lambda>(a', r', d').
     bind_result
       (call_Transition
          ([(''state'', TensorV s), (''action'', TensorV a'), (''reward'', TensorV r'),
            (''next_state'', TensorV ns), (''done'', TensorV d')] @ infos')) (\<lambda>sars.
     (let (p, h1) = new_transition sars h
      in bind_result (transition_to h1 p (device (replays h1 ! self)) None) (\<lambda>(q, h2).
           Inr (h2\<lparr>replays := (replays h2)[self := (replays h2 ! self)
                  \<lparr>storage := storage (replays h2 ! self) @ [q]\<rparr>]\<rparr>)))))))))))"

text \<open>
  The call \<^verbatim>\<open>replay.append(**kw)\<close>: the five named parameters default to
  \<open>None\<close>, every other keyword goes to \<open>infos\<close>.
\<close>

definition call_append :: "heap \<Rightarrow> nat \<Rightarrow> (string \<times> pyval) list \<Rightarrow> py_error + heap" where
  "call_append h self kw =
     (let arg = (\<lambda>k. case map_of kw k of None \<Rightarrow> NoneV | Some v \<Rightarrow> v)
      in append_replay h self (arg ''state'') (arg ''action'') (arg ''reward'')
           (arg ''next_state'') (arg ''done'')
           (filter (\<lambda>(k, _). k \<notin> set core_fields) kw))"

subsection \<open>Flattening\<close>

text \<open>\<^verbatim>\<open>v[i]\<close> on a value.\<close>

definition getitem_val :: "pyval \<Rightarrow> nat \<Rightarrow> py_error + pyval" where
  "getitem_val v i =
     (case v of
        TensorV t \<Rightarrow> bind_result (tensor_index t i) (\<lambda>x. Inr (TensorV x))
      | NamesV ns \<Rightarrow> if i < length ns then Inr (StrV (ns ! i)) else Inl IndexError
      | StrV s \<Rightarrow> if i < length s then Inr (StrV [s ! i]) else Inl IndexError
      | _ \<Rightarrow> Inl TypeError)"

text \<open>The first dictionary comprehension of \<^verbatim>\<open>flatten\<close>.\<close>

fun slice_fields ::
  "transition \<Rightarrow> nat \<Rightarrow> string list \<Rightarrow> (string \<times> pyval) list \<Rightarrow> py_error + (string \<times> pyval) list" where
  "slice_fields sars i [] kw = Inr kw"
| "slice_fields sars i (field # rest) kw =
     (case getattr sars field of
        Inl e \<Rightarrow> Inl e
      | Inr v \<Rightarrow>
          (case getitem_val v i of
             Inl e \<Rightarrow> Inl e
           | Inr x \<Rightarrow> slice_fields sars i rest (AList.update field x kw)))"

text \<open>The second one: the dropped axis is added back.\<close>

definition unsqueeze_fields :: "(string \<times> pyval) list \<Rightarrow> py_error + (string \<times> pyval) list" where
  "unsqueeze_fields kw =
     mapM (\<lambda>(k, v). if istensorable v
                     then (case v of TensorV t \<Rightarrow> Inr (k, TensorV (unsqueeze0 t))
                                   | _ \<Rightarrow> Inl AttributeError)
                     else Inr (k, v)) kw"

text \<open>The inner loop of \<^verbatim>\<open>flatten\<close>, over the environments of one Transition.\<close>

fun flatten_envs :: "heap \<Rightarrow> nat \<Rightarrow> nat \<Rightarrow> nat list \<Rightarrow> py_error + heap" where
  "flatten_envs h flat sars [] = Inr h"
| "flatten_envs h flat sars (i # rest) =
     (case slice_fields (transitions h ! sars) i (field_names (transitions h ! sars)) [] of
        Inl e \<Rightarrow> Inl e
      | Inr kw \<Rightarrow>
          (case unsqueeze_fields kw of
             Inl e \<Rightarrow> Inl e
           | Inr kw' \<Rightarrow>
               (case call_append h flat kw' of
                  Inl e \<Rightarrow> Inl e
                | Inr h' \<Rightarrow> flatten_envs h' flat sars rest)))"

text \<open>The outer loop, over the stored Transitions.\<close>

fun flatten_loop :: "heap \<Rightarrow> nat \<Rightarrow> nat list \<Rightarrow> py_error + heap" where
  "flatten_loop h flat [] = Inr h"
| "flatten_loop h flat (sars # rest) =
     (case getattr (transitions h ! sars) ''done'' of
        Inl e \<Rightarrow> Inl e
      | Inr dn \<Rightarrow>
          (case dn of
             TensorV d \<Rightarrow>
               (case shape0 d of
                  Inl e \<Rightarrow> Inl e
                | Inr n \<Rightarrow>
                    (case flatten_envs h flat sars [0..<n] of
                       Inl e \<Rightarrow> Inl e
                     | Inr h' \<Rightarrow> flatten_loop h' flat rest))
           | _ \<Rightarrow> Inl AttributeError))"

text \<open>\<^verbatim>\<open>ExperienceReplay.flatten\<close>: returns the address of the result.\<close>

definition flatten :: "heap \<Rightarrow> nat \<Rightarrow> py_error + (nat \<times> heap)" where
  "flatten h self =
     (if \<not> vectorized (replays h ! self) then Inr (self, h)
      else (let (flat, h0) = ExperienceReplay [] None False h
            in case flatten_loop h0 flat (storage (replays h ! self)) of
                 Inl e \<Rightarrow> Inl e
               | Inr h' \<Rightarrow> Inr (flat, h')))"

subsection \<open>Sampling\<close>

text \<open>
  The global random generator is a sequence \<open>g\<close> of raw draws and a position in it;
  every call of \<^verbatim>\<open>random.randint\<close> reads one draw and moves the position on.
  \<^verbatim>\<open>random.randint(a, b)\<close> raises \<^verbatim>\<open>ValueError\<close> on an empty range and
  returns a number of \<open>[a, b]\<close> otherwise; every number of the range is returned for some
  draw.
\<close>

definition randint :: "int \<Rightarrow> int \<Rightarrow> nat \<Rightarrow> py_error + int" where
  "randint a b raw = (if b < a then Inl ValueError else Inr (a + int (raw mod nat (b - a + 1))))"

text \<open>
  The first scan of episode sampling, over \<^verbatim>\<open>reversed(list(enumerate(dones)))\<close>:
  the index of the terminal Record that has \<open>end\<close> terminal Records after it. When the
  scan ends without a hit, \<^verbatim>\<open>end_idx\<close> is unbound where it is read.
\<close>

fun find_end_idx :: "(nat \<times> tensor) list \<Rightarrow> int \<Rightarrow> int \<Rightarrow> py_error + nat" where
  "find_end_idx [] count end' = Inl UnboundLocalError"
| "find_end_idx ((idx, d) # rest) count end' =
     (case tensor_bool d of
        Inl e \<Rightarrow> Inl e
      | Inr b \<Rightarrow>
          if b then (if count \<ge> end' then Inr idx else find_end_idx rest (count + 1) end')
          else find_end_idx rest count end')"

text \<open>
  The second scan, over \<^verbatim>\<open>reversed(range(0, end_idx))\<close>: indices are put in front
  until \<open>size\<close> terminal Records have been met.
\<close>

fun fill_indices :: "tensor \<Rightarrow> nat list \<Rightarrow> int \<Rightarrow> int \<Rightarrow> nat list \<Rightarrow> py_error + nat list" where
  "fill_indices dones [] count sz indices = Inr indices"
| "fill_indices dones (idx # rest) count sz indices =
     (case tensor_index dones idx of
        Inl e \<Rightarrow> Inl e
      | Inr d \<Rightarrow>
          (case tensor_bool d of
             Inl e \<Rightarrow> Inl e
           | Inr b \<Rightarrow>
               if b then (if count + 1 \<ge> sz then Inr indices
                          else fill_indices dones rest (count + 1) sz (idx # indices))
               else fill_indices dones rest count sz (idx # indices)))"

text \<open>The indices of \<open>size\<close> contiguous episodes (the \<^verbatim>\<open>else\<close> branch under \<^verbatim>\<open>episodes\<close>).\<close>

definition episode_indices :: "heap \<Rightarrow> nat \<Rightarrow> int \<Rightarrow> nat \<Rightarrow> py_error + int list" where
  "episode_indices h self sz raw =
     bind_result (access_property h self ''done'') (\<lambda>all_dones.
     (let num_episodes = tensor_sum all_dones
      in bind_result (randint (sz - 1) (num_episodes - sz) raw) (\<lambda>end'.
         bind_result (access_property h self ''done'') (\<lambda>dones.
         bind_result
           (find_end_idx (rev (zip [0..<length (tensor_rows dones)] (tensor_rows dones))) 0 end')
           (\<lambda>end_idx.
         bind_result (fill_indices dones (rev [0..<end_idx]) 0 sz [end_idx]) (\<lambda>indices.
           Inr (map int indices)))))))"

text \<open>The indices of transition-level sampling (the outer \<^verbatim>\<open>else\<close> branch).\<close>

definition transition_indices ::
  "heap \<Rightarrow> nat \<Rightarrow> int \<Rightarrow> bool \<Rightarrow> (nat \<Rightarrow> nat) \<Rightarrow> nat \<Rightarrow> py_error + int list" where
  "transition_indices h self sz contiguous g i =
     (let length' = int (len h self) - 1
      in if contiguous
         then bind_result (randint 0 (length' - sz) (g i)) (\<lambda>start.
                Inr (map (\<lambda>k. start + int k) [0..<nat sz]))
         else mapM (\<lambda>k. randint 0 length' (g (i + k))) [0..<nat sz])"

text \<open>\<^verbatim>\<open>storage = [self[idx] for idx in indices]\<close> and the construction of the result.\<close>

definition fill_sample :: "heap \<Rightarrow> nat \<Rightarrow> int list \<Rightarrow> py_error + (nat \<times> heap)" where
  "fill_sample h self indices =
     bind_result (mapM (getitem h self) indices) (\<lambda>storage'.
       Inr (ExperienceReplay storage' None (vectorized (replays h ! self)) h))"

text \<open>
  \<^verbatim>\<open>[self.sample(1, episodes=True) for _ in range(size)]\<close> and
  \<^verbatim>\<open>sum(samples, replay)\<close>; \<open>rec\<close> is the method called.
\<close>

fun repeat_sample ::
  "(heap \<Rightarrow> nat \<Rightarrow> int \<Rightarrow> bool \<Rightarrow> bool \<Rightarrow> (nat \<Rightarrow> nat) \<Rightarrow> nat \<Rightarrow> py_error + ((nat \<times> heap) \<times> nat))
     \<Rightarrow> heap \<Rightarrow> nat \<Rightarrow> nat \<Rightarrow> (nat \<Rightarrow> nat) \<Rightarrow> nat \<Rightarrow> py_error + (nat list \<times> heap \<times> nat)" where
  "repeat_sample rec h self 0 g i = Inr ([], h, i)"
| "repeat_sample rec h self (Suc n) g i =
     (case rec h self 1 False True g i of
        Inl e \<Rightarrow> Inl e
      | Inr ((r, h'), i') \<Rightarrow>
          (case repeat_sample rec h' self n g i' of
             Inl e \<Rightarrow> Inl e
           | Inr (rs, h'', i'') \<Rightarrow> Inr (r # rs, h'', i'')))"

fun sum_replays :: "heap \<Rightarrow> nat \<Rightarrow> nat list \<Rightarrow> py_error + (nat \<times> heap)" where
  "sum_replays h acc [] = Inr (acc, h)"
| "sum_replays h acc (r # rs) =
     (case add h acc r of
        Inl e \<Rightarrow> Inl e
      | Inr (acc', h') \<Rightarrow> sum_replays h' acc' rs)"

text \<open>
  The body of \<^verbatim>\<open>ExperienceReplay.sample(size, contiguous, episodes)\<close>, with the
  method it calls on itself as a parameter. The result is the address of the new replay,
  the store and the position of the random generator.
\<close>

definition sample_body ::
  "(heap \<Rightarrow> nat \<Rightarrow> int \<Rightarrow> bool \<Rightarrow> bool \<Rightarrow> (nat \<Rightarrow> nat) \<Rightarrow> nat \<Rightarrow> py_error + ((nat \<times> heap) \<times> nat))
     \<Rightarrow> heap \<Rightarrow> nat \<Rightarrow> int \<Rightarrow> bool \<Rightarrow> bool \<Rightarrow> (nat \<Rightarrow> nat) \<Rightarrow> nat
     \<Rightarrow> py_error + ((nat \<times> heap) \<times> nat)" where
  "sample_body rec h self sz contiguous episodes g i =
     (if len h self < 1 \<or> sz < 1
      then Inr (ExperienceReplay [] None (vectorized (replays h ! self)) h, i)
      else if episodes
      then (if vectorized (replays h ! self) then Inl AssertionError
            else if sz > 1 \<and> \<not> contiguous
            then (let (replay, h0) = ExperienceReplay [] None False h
                  in bind_result (repeat_sample rec h0 self (nat sz) g i) (\<lambda>(rs, h1, i1).
                     bind_result (sum_replays h1 replay rs) (\<lambda>res. Inr (res, i1))))
            else bind_result (episode_indices h self sz (g i)) (\<lambda>indices.
                 bind_result (fill_sample h self indices) (\<lambda>res. Inr (res, Suc i))))
      else bind_result (transition_indices h self sz contiguous g i) (\<lambda>indices.
           bind_result (fill_sample h self indices) (\<lambda>res.
             Inr (res, if contiguous then Suc i else i + nat sz))))"

text \<open>
  The method calls itself with \<open>size = 1\<close> only, and a call with \<open>size = 1\<close> never
  calls itself: two levels of the body are the method.
\<close>

definition sample ::
  "heap \<Rightarrow> nat \<Rightarrow> int \<Rightarrow> bool \<Rightarrow> bool \<Rightarrow> (nat \<Rightarrow> nat) \<Rightarrow> nat \<Rightarrow> py_error + ((nat \<times> heap) \<times> nat)" where
  "sample = sample_body (sample_body (\<lambda>h self sz contiguous episodes g i. Inl RuntimeError))"

section \<open>Reading results, and example stores\<close>

text \<open>The \<^verbatim>\<open>_storage\<close> of the replay a call of \<^verbatim>\<open>sample\<close> returned.\<close>

definition sampled :: "py_error + ((nat \<times> heap) \<times> nat) \<Rightarrow> py_error + nat list" where
  "sampled res = (case res of Inl e \<Rightarrow> Inl e | Inr ((r, h'), _) \<Rightarrow> Inr (storage (replays h' ! r)))"

text \<open>A one-element tensor of shape \<open>(1, 1)\<close>, and a tensor with one row per environment.\<close>

definition scalar_tensor :: "int \<Rightarrow> tensor" where
  "scalar_tensor x = \<lparr>shape = [1, 1], elems = [x], dev = ''cpu'', dtp = Float32\<rparr>"

definition column_tensor :: "int list \<Rightarrow> tensor" where
  "column_tensor xs = \<lparr>shape = [length xs, 1], elems = xs, dev = ''cpu'', dtp = Float32\<rparr>"

definition step :: "int \<Rightarrow> int \<Rightarrow> transition" where
  "step x d =
     Transition (TensorV (scalar_tensor x)) (TensorV (scalar_tensor x)) (TensorV (scalar_tensor x))
       (TensorV (scalar_tensor (x + 1))) (TensorV (scalar_tensor d)) NoneV []"

text \<open>
  Six Transitions with the terminal flag set at the indices 1 and 4, held by the replay at
  address 0; the replay at address 1 is empty, the one at address 2 is vectorized.
\<close>

definition example_heap :: heap where
  "example_heap =
     \<lparr>transitions = [step 0 0, step 1 1, step 2 0, step 3 0, step 4 1, step 5 0],
      replays = [\<lparr>storage = [0, 1, 2, 3, 4, 5], vectorized = False, device = None\<rparr>,
                 \<lparr>storage = [], vectorized = False, device = None\<rparr>,
                 \<lparr>storage = [5], vectorized = True, device = None\<rparr>]\<rparr>"

text \<open>A random generator whose every raw draw is \<open>c\<close>.\<close>

definition draws :: "nat \<Rightarrow> nat \<Rightarrow> nat" where
  "draws c = (\<lambda>_. c)"

section \<open>Well-formed Transitions\<close>

text \<open>
  What the constructor establishes and attribute assignment keeps: the field names are
  distinct and start with the five core names, none is a reserved name, every field has
  a value, and \<^verbatim>\<open>device\<close> is set.
\<close>

definition wf_transition :: "transition \<Rightarrow> bool" where
  "wf_transition t =
     (distinct (field_names t) \<and> take 5 (field_names t) = core_fields \<and>
      list_all (\<lambda>f. f \<notin> set reserved_names \<and> map_of (attrs t) f \<noteq> None) (field_names t) \<and>
      map_of (attrs t) ''device'' \<noteq> None)"



section \<open>Terminal flags\<close>




section \<open>Vectorized Records and the growth of the flattened replay\<close>





text \<open>
  A vectorized replay of two Records over three environments, each Record with an
  auxiliary field.
\<close>

definition vector_step :: "int list \<Rightarrow> transition" where
  "vector_step xs =
     Transition (TensorV (column_tensor xs)) (TensorV (column_tensor xs))
       (TensorV (column_tensor xs)) (TensorV (column_tensor xs)) (TensorV (column_tensor xs))
       NoneV [(''log_prob'', TensorV (column_tensor xs))]"

definition vector_heap :: heap where
  "vector_heap =
     \<lparr>transitions = [vector_step [0, 1, 0], vector_step [1, 1, 0]],
      replays = [\<lparr>storage = [0, 1], vectorized = True, device = None\<rparr>]\<rparr>"

section \<open>Sampling: the index computations\<close>

lemma mapM_Inr: "(\<And>x. x \<in> set xs \<Longrightarrow> f x = Inr (g x)) \<Longrightarrow> mapM f xs = Inr (map g xs)"
  by (induction xs) auto

lemma py_index_nonneg:
  "0 \<le> i \<Longrightarrow> i < int (length xs) \<Longrightarrow> py_index xs i = Inr (xs ! nat i)"
  by (simp add: py_index_def)


lemma randint_empty: "b < a \<Longrightarrow> randint a b raw = Inl ValueError"
  by (simp add: randint_def)

lemma randint_onto:
  "a \<le> x \<Longrightarrow> x \<le> b \<Longrightarrow> randint a b (nat (x - a)) = Inr x"
  by (simp add: randint_def)

lemma sample_transitions:
  "len h self \<ge> 1 \<Longrightarrow> sz \<ge> 1 \<Longrightarrow>
   sample h self sz contiguous False g i =
     bind_result (transition_indices h self sz contiguous g i) (\<lambda>indices.
     bind_result (fill_sample h self indices) (\<lambda>res.
       Inr (res, if contiguous then Suc i else i + nat sz)))"
  by (simp add: sample_def sample_body_def)

lemma fill_sample_valid:
  assumes "\<And>j. j \<in> set indices \<Longrightarrow> 0 \<le> j \<and> j < int (len h self)"
  shows "fill_sample h self indices =
           Inr (length (replays h),
                h\<lparr>replays := replays h @
                   [\<lparr>storage = map (\<lambda>j. storage (replays h ! self) ! nat j) indices,
                     vectorized = vectorized (replays h ! self), device = None\<rparr>]\<rparr>)"
proof -
  have "mapM (getitem h self) indices = Inr (map (\<lambda>j. storage (replays h ! self) ! nat j) indices)"
    using assms by (intro mapM_Inr) (simp add: getitem_def py_index_nonneg len_def)
  then show ?thesis by (simp add: fill_sample_def ExperienceReplay_def)
qed

lemma contiguous_indices:
  assumes "sz \<ge> 1"
  shows "transition_indices h self sz True g i =
           (if int (len h self) - 1 - sz < 0 then Inl ValueError
            else Inr (map (\<lambda>k. int (g i mod nat (int (len h self) - sz)) + int k) [0..<nat sz]))"
proof -
  have "int (len h self) - 1 - sz + 1 = int (len h self) - sz" by simp
  then show ?thesis
    by (simp add: transition_indices_def randint_def Let_def)
qed

lemma sample_guard:
  "len h self = 0 \<or> sz < 1 \<Longrightarrow>
   sample h self sz contiguous episodes g i =
     Inr ((length (replays h),
           h\<lparr>replays := replays h @
              [\<lparr>storage = [], vectorized = vectorized (replays h ! self), device = None\<rparr>]\<rparr>), i)"
  by (auto simp: sample_def sample_body_def ExperienceReplay_def)

lemma map_nth_shift:
  "map (\<lambda>j. xs ! nat j) (map (\<lambda>k. int s + int k) [0..<n]) = map (\<lambda>k. xs ! k) [s..<s + n]"
proof -
  have "[s..<s + n] = map (\<lambda>k. k + s) [0..<n]"
    by (simp add: map_add_upt add.commute)
  then show ?thesis
    by (simp add: comp_def add.commute flip: of_nat_add)
qed

lemma sample_contiguous_eq:
  assumes ne: "1 \<le> len h self" and sz: "1 \<le> sz"
  shows "sample h self sz True False g i =
           (if int (len h self) - 1 - sz < 0 then Inl ValueError
            else Inr ((length (replays h),
                   h\<lparr>replays := replays h @
                      [\<lparr>storage = map (\<lambda>k. storage (replays h ! self) ! k)
                                     [g i mod nat (int (len h self) - sz)..<
                                      g i mod nat (int (len h self) - sz) + nat sz],
                        vectorized = vectorized (replays h ! self), device = None\<rparr>]\<rparr>), Suc i))"
proof (cases "int (len h self) - 1 - sz < 0")
  case True
  then show ?thesis
    using ne sz by (simp add: sample_transitions contiguous_indices)
next
  case False
  define s where "s = g i mod nat (int (len h self) - sz)"
  define indices where "indices = map (\<lambda>k. int s + int k) [0..<nat sz]"
  have pos: "0 < nat (int (len h self) - sz)" using False by simp
  have s_lt: "s < nat (int (len h self) - sz)" unfolding s_def using pos by (rule mod_less_divisor)
  have ti: "transition_indices h self sz True g i = Inr indices"
    using False sz by (simp add: contiguous_indices indices_def s_def)
  have valid: "\<And>j. j \<in> set indices \<Longrightarrow> 0 \<le> j \<and> j < int (len h self)"
    using s_lt sz False by (auto simp: indices_def)
  have "map (\<lambda>j. storage (replays h ! self) ! nat j) indices
          = map (\<lambda>k. storage (replays h ! self) ! k) [s..<s + nat sz]"
    unfolding indices_def by (rule map_nth_shift)
  moreover have "fill_sample h self indices =
          Inr (length (replays h),
               h\<lparr>replays := replays h @
                  [\<lparr>storage = map (\<lambda>j. storage (replays h ! self) ! nat j) indices,
                    vectorized = vectorized (replays h ! self), device = None\<rparr>]\<rparr>)"
    using valid by (rule fill_sample_valid)
  ultimately show ?thesis
    using False ne sz ti
    by (simp add: sample_transitions s_def)
qed

lemma random_indices:
  assumes ne: "1 \<le> len h self"
  shows "transition_indices h self sz False g i =
           Inr (map (\<lambda>k. int (g (i + k) mod len h self)) [0..<nat sz])"
proof -
  have "\<And>k. randint 0 (int (len h self) - 1) (g (i + k)) = Inr (int (g (i + k) mod len h self))"
    using ne by (simp add: randint_def)
  then show ?thesis
    by (simp add: transition_indices_def Let_def mapM_Inr)
qed

lemma sample_random_eq:
  assumes ne: "1 \<le> len h self" and sz: "1 \<le> sz"
  shows "sample h self sz False False g i =
           Inr ((length (replays h),
                 h\<lparr>replays := replays h @
                    [\<lparr>storage = map (\<lambda>k. storage (replays h ! self) ! (g (i + k) mod len h self))
                                   [0..<nat sz],
                      vectorized = vectorized (replays h ! self), device = None\<rparr>]\<rparr>),
                i + nat sz)"
proof -
  define indices where "indices = map (\<lambda>k. int (g (i + k) mod len h self)) [0..<nat sz]"
  have valid: "\<And>j. j \<in> set indices \<Longrightarrow> 0 \<le> j \<and> j < int (len h self)"
    using ne by (auto simp: indices_def)
  have "fill_sample h self indices =
          Inr (length (replays h),
               h\<lparr>replays := replays h @
                  [\<lparr>storage = map (\<lambda>j. storage (replays h ! self) ! nat j) indices,
                    vectorized = vectorized (replays h ! self), device = None\<rparr>]\<rparr>)"
    using valid by (rule fill_sample_valid)
  then show ?thesis
    using ne sz random_indices [OF ne, of sz g i]
    by (simp add: sample_transitions indices_def comp_def)
qed

section \<open>Transfer of a Transition: the field list is kept\<close>



lemma field_names_setattr:
  "field_names (setattr n v t) =
     (if n \<notin> set reserved_names \<and> n \<notin> set (field_names t) then field_names t @ [n] else field_names t)"
  by (simp add: setattr_def Let_def)

lemma attrs_setattr: "attrs (setattr n v t) = AList.update n v (attrs t)"
  by (simp add: setattr_def Let_def)










section \<open>Constructor, attribute assignment, batched access and persistence\<close>





lemma wf_setattr:
  assumes "wf_transition t"
  shows "wf_transition (setattr name v t)"
proof -
  from assms have tk: "take 5 (field_names t) = core_fields" by (simp add: wf_transition_def)
  then have "length (take 5 (field_names t)) = 5" by (simp add: core_fields_def)
  then have "5 \<le> length (field_names t)" by simp
  then have "take 5 (field_names t @ [name]) = core_fields" using tk by simp
  then show ?thesis
    using assms
    by (auto simp: wf_transition_def field_names_setattr attrs_setattr update_conv' list_all_iff)
qed


lemma iadd_appends:
  "self < length (replays h) \<Longrightarrow>
   \<exists>h'. iadd h self other = Inr (self, h') \<and>
        storage (replays h' ! self) = storage (replays h ! self) @ storage (replays h ! other) \<and>
        transitions h' = transitions h"
  by (simp add: iadd_def Let_def)



lemma map_nth_append_suffix:
  "map (\<lambda>a. (xs @ ys) ! a) [length xs..<length xs + length ys] = ys"
  by (rule nth_equalityI) (auto simp: nth_append)

section \<open>Episode sampling\<close>























lemma sample_last_episode_example: "sampled (sample example_heap 0 1 False True (draws 0) 0) = Inr [2, 3, 4]"
  by code_simp

lemma sample_first_episode_example: "sampled (sample example_heap 0 1 False True (draws 1) 0) = Inr [0, 1]"
  by code_simp

lemma sample_body_size_one:
  "sample_body rec h self 1 contiguous episodes g i = sample_body rec' h self 1 contiguous episodes g i"
  by (simp add: sample_body_def)

lemma repeat_sample_cong:
  "(\<And>h i. rec h self 1 False True g i = rec' h self 1 False True g i) \<Longrightarrow>
   repeat_sample rec h self n g i = repeat_sample rec' h self n g i"
  by (induction n arbitrary: h i) (auto split: sum.splits)

lemma sample_rec:
  "sample h self sz contiguous episodes g i = sample_body sample h self sz contiguous episodes g i"
proof -
  let ?inner = "sample_body (\<lambda>h self sz contiguous episodes g i. Inl RuntimeError)"
  have one: "?inner h self 1 False True g i = sample h self 1 False True g i" for h i
    unfolding sample_def by (rule sample_body_size_one)
  have rep: "repeat_sample ?inner h self n g i = repeat_sample sample h self n g i" for h n i
    using one by (rule repeat_sample_cong [where rec = ?inner and rec' = sample])
  have "sample_body ?inner h self sz contiguous episodes g i =
        sample_body sample h self sz contiguous episodes g i" if "1 < sz"
    unfolding sample_body_def rep ..
  moreover have "sample_body ?inner h self sz contiguous episodes g i =
        sample_body sample h self sz contiguous episodes g i" if "\<not> 1 < sz"
    using that by (simp add: sample_body_def)
  ultimately have eq: "sample_body ?inner h self sz contiguous episodes g i =
        sample_body sample h self sz contiguous episodes g i" by blast
  show ?thesis
    by (subst sample_def) (rule eq)
qed

section \<open>Flattening\<close>






















lemma flatten_vector_example:
  "map_sum id (\<lambda>(r, h'). (r, storage (replays h' ! r))) (flatten vector_heap 0) =
     Inr (1, [3, 5, 7, 9, 11, 13])"
  by code_simp

section \<open>Sampling: the claims\<close>

text \<open>
  Claim C4. When the replay is empty or \<open>size < 1\<close>, \<^verbatim>\<open>sample\<close> returns a new,
  empty replay with the source's \<open>vectorized\<close> flag and raises nothing, whatever the flags
  \<open>contiguous\<close> and \<open>episodes\<close> are; the store is otherwise unchanged and no random
  draw is consumed.
\<close>

theorem sample_nothing_requested:
  assumes "len h self = 0 \<or> sz < 1"
  shows "sample h self sz contiguous episodes g i =
           Inr ((length (replays h),
                 h\<lparr>replays := replays h @
                    [\<lparr>storage = [], vectorized = vectorized (replays h ! self), device = None\<rparr>]\<rparr>), i)"
  using assms by (rule sample_guard)

theorem sample_nothing_requested_witness:
  "(len example_heap 1 = 0 \<or> (1::int) < 1) \<and>
   sample example_heap 1 1 False True (draws 0) 0 =
     Inr ((length (replays example_heap),
           example_heap\<lparr>replays := replays example_heap @
              [\<lparr>storage = [], vectorized = vectorized (replays example_heap ! 1), device = None\<rparr>]\<rparr>), 0)"
  using sample_nothing_requested [of example_heap 1 1 False True "draws 0" 0]
  by (simp add: len_def example_heap_def)

text \<open>
  Claim C1, amended to non-empty replays. For a non-empty replay and \<open>1 \<le> size\<close>,
  contiguous transition sampling raises \<^verbatim>\<open>ValueError\<close> when
  \<open>(len - 1) - size < 0\<close>; otherwise it returns exactly \<open>size\<close> Records, those at the
  indices \<open>start, start + 1, \<dots>, start + size - 1\<close> for a start in
  \<open>[0, (len - 1) - size]\<close>, and every start of that range is chosen by some draw.
\<close>

theorem sample_contiguous_window:
  assumes "1 \<le> len h self" and "1 \<le> sz"
  shows "(int (len h self) - 1 - sz < 0 \<longrightarrow> sample h self sz True False g i = Inl ValueError) \<and>
         (0 \<le> int (len h self) - 1 - sz \<longrightarrow>
            (\<exists>start. int start \<le> int (len h self) - 1 - sz \<and>
               sampled (sample h self sz True False g i) =
                 Inr (map (\<lambda>k. storage (replays h ! self) ! k) [start..<start + nat sz]))) \<and>
         (\<forall>start. int start \<le> int (len h self) - 1 - sz \<longrightarrow>
            (\<exists>g'. sampled (sample h self sz True False g' i) =
                 Inr (map (\<lambda>k. storage (replays h ! self) ! k) [start..<start + nat sz])))"
proof (intro conjI impI allI)
  assume "int (len h self) - 1 - sz < 0"
  then show "sample h self sz True False g i = Inl ValueError"
    using assms by (simp add: sample_contiguous_eq)
next
  assume ok: "0 \<le> int (len h self) - 1 - sz"
  let ?s = "g i mod nat (int (len h self) - sz)"
  have "?s < nat (int (len h self) - sz)" using ok by (intro mod_less_divisor) simp
  then have "int ?s \<le> int (len h self) - 1 - sz" by linarith
  moreover have "sampled (sample h self sz True False g i) =
                   Inr (map (\<lambda>k. storage (replays h ! self) ! k) [?s..<?s + nat sz])"
    using assms ok by (simp add: sample_contiguous_eq sampled_def)
  ultimately show "\<exists>start. int start \<le> int (len h self) - 1 - sz \<and>
      sampled (sample h self sz True False g i) =
        Inr (map (\<lambda>k. storage (replays h ! self) ! k) [start..<start + nat sz])"
    by blast
next
  fix start assume st: "int start \<le> int (len h self) - 1 - sz"
  then have "start mod nat (int (len h self) - sz) = start" by (intro mod_less) linarith
  then have "sampled (sample h self sz True False (draws start) i) =
               Inr (map (\<lambda>k. storage (replays h ! self) ! k) [start..<start + nat sz])"
    using assms st by (simp add: sample_contiguous_eq sampled_def draws_def)
  then show "\<exists>g'. sampled (sample h self sz True False g' i) =
               Inr (map (\<lambda>k. storage (replays h ! self) ! k) [start..<start + nat sz])"
    by blast
qed

theorem sample_contiguous_window_witness:
  "1 \<le> len example_heap 0 \<and> (1::int) \<le> 2 \<and> 0 \<le> int (len example_heap 0) - 1 - 2 \<and>
   (\<exists>start. int start \<le> int (len example_heap 0) - 1 - 2 \<and>
      sampled (sample example_heap 0 2 True False (draws 1) 0) =
        Inr (map (\<lambda>k. storage (replays example_heap ! 0) ! k) [start..<start + nat 2]))"
  using sample_contiguous_window [of example_heap 0 2 "draws 1" 0]
  by (simp add: len_def example_heap_def)

text \<open>
  Claim C1 as stated fails on the empty replay: there \<open>(len - 1) - size < 0\<close>, and the
  call returns an empty replay instead of failing.
\<close>

theorem sample_contiguous_empty_counterexample:
  "int (len example_heap 1) - 1 - 1 < 0 \<and>
   sample example_heap 1 1 True False (draws 0) 0 \<noteq> Inl ValueError \<and>
   sampled (sample example_heap 1 1 True False (draws 0) 0) = Inr []"
  by (simp add: sample_guard sampled_def len_def example_heap_def)

text \<open>
  Claim C2. For a non-empty replay and \<open>1 \<le> size \<le> len\<close>, transition sampling
  without \<open>contiguous\<close> returns exactly \<open>size\<close> Records; the \<open>k\<close>-th one is the
  source's Record at the index the \<open>k\<close>-th draw gives in \<open>[0, len - 1]\<close>, so every
  selected Record is one of the source's, and every list of \<open>size\<close> indices of that
  range, duplicates included, is the result of some draws.
\<close>

theorem sample_with_replacement:
  assumes "1 \<le> len h self" and "1 \<le> sz" and "sz \<le> int (len h self)"
  shows "sampled (sample h self sz False False g i) =
           Inr (map (\<lambda>k. storage (replays h ! self) ! (g (i + k) mod len h self)) [0..<nat sz]) \<and>
         (\<exists>picked. sampled (sample h self sz False False g i) = Inr picked \<and>
            length picked = nat sz \<and> set picked \<subseteq> set (storage (replays h ! self))) \<and>
         (\<forall>js. length js = nat sz \<and> list_all (\<lambda>j. j < len h self) js \<longrightarrow>
            (\<exists>g'. sampled (sample h self sz False False g' i) =
               Inr (map (\<lambda>j. storage (replays h ! self) ! j) js)))"
proof (intro conjI allI impI)
  show eq: "sampled (sample h self sz False False g i) =
           Inr (map (\<lambda>k. storage (replays h ! self) ! (g (i + k) mod len h self)) [0..<nat sz])"
    using assms by (simp add: sample_random_eq sampled_def)
  have "0 < len h self" using assms(1) by simp
  then have "\<And>k. g (i + k) mod len h self < len h self" by (rule mod_less_divisor)
  then have "\<And>k. g (i + k) mod len h self < length (storage (replays h ! self))"
    by (simp add: len_def)
  then have "set (map (\<lambda>k. storage (replays h ! self) ! (g (i + k) mod len h self)) [0..<nat sz])
               \<subseteq> set (storage (replays h ! self))"
    by auto
  then show "\<exists>picked. sampled (sample h self sz False False g i) = Inr picked \<and>
            length picked = nat sz \<and> set picked \<subseteq> set (storage (replays h ! self))"
    using eq by simp
next
  fix js assume js: "length js = nat sz \<and> list_all (\<lambda>j. j < len h self) js"
  define g' where "g' = (\<lambda>n. js ! (n - i))"
  have "map (\<lambda>k. storage (replays h ! self) ! (g' (i + k) mod len h self)) [0..<nat sz]
          = map (\<lambda>j. storage (replays h ! self) ! j) js"
  proof (rule nth_equalityI)
    show "length (map (\<lambda>k. storage (replays h ! self) ! (g' (i + k) mod len h self)) [0..<nat sz])
            = length (map (\<lambda>j. storage (replays h ! self) ! j) js)"
      using js by simp
  next
    fix k assume "k < length (map (\<lambda>k. storage (replays h ! self) ! (g' (i + k) mod len h self)) [0..<nat sz])"
    then have k: "k < nat sz" by simp
    then have "js ! k < len h self" using js by (simp add: list_all_length)
    then show "map (\<lambda>k. storage (replays h ! self) ! (g' (i + k) mod len h self)) [0..<nat sz] ! k
                 = map (\<lambda>j. storage (replays h ! self) ! j) js ! k"
      using k js by (simp add: g'_def)
  qed
  then have "sampled (sample h self sz False False g' i) =
               Inr (map (\<lambda>j. storage (replays h ! self) ! j) js)"
    using assms by (simp add: sample_random_eq sampled_def)
  then show "\<exists>g'. sampled (sample h self sz False False g' i) =
               Inr (map (\<lambda>j. storage (replays h ! self) ! j) js)"
    by blast
qed

theorem sample_with_replacement_witness:
  "1 \<le> len example_heap 0 \<and> (1::int) \<le> 3 \<and> 3 \<le> int (len example_heap 0) \<and>
   sampled (sample example_heap 0 3 False False (draws 4) 0) =
     Inr (map (\<lambda>k. storage (replays example_heap ! 0) ! (draws 4 (0 + k) mod len example_heap 0))
            [0..<nat 3])"
  using sample_with_replacement [of example_heap 0 3 "draws 4" 0]
  by (simp add: len_def example_heap_def)

text \<open>
  Claim C10. For \<open>1 \<le> size\<close> and every draw, the indices contiguous transition
  sampling selects lie in \<open>[0, len - 2]\<close>, so the last stored Record is never selected
  (an empty replay selects nothing); and \<open>size = len\<close> always raises.
\<close>

theorem contiguous_sample_skips_last:
  assumes "1 \<le> sz"
  shows "(\<forall>indices. 1 \<le> len h self \<and> transition_indices h self sz True g i = Inr indices \<longrightarrow>
            list_all (\<lambda>j. 0 \<le> j \<and> j \<le> int (len h self) - 2) indices \<and>
            sampled (sample h self sz True False g i) =
              Inr (map (\<lambda>j. storage (replays h ! self) ! nat j) indices)) \<and>
         (len h self = 0 \<longrightarrow> sampled (sample h self sz True False g i) = Inr []) \<and>
         (sz = int (len h self) \<longrightarrow> sample h self sz True False g i = Inl ValueError)"
proof (intro conjI allI impI)
  fix indices
  assume a: "1 \<le> len h self \<and> transition_indices h self sz True g i = Inr indices"
  let ?s = "g i mod nat (int (len h self) - sz)"
  from a assms have ok: "\<not> int (len h self) - 1 - sz < 0"
    and ind: "indices = map (\<lambda>k. int ?s + int k) [0..<nat sz]"
    by (auto simp: contiguous_indices split: if_splits)
  have slt: "?s < nat (int (len h self) - sz)" using ok by (intro mod_less_divisor) simp
  have "\<And>k. k < nat sz \<Longrightarrow> int ?s + int k \<le> int (len h self) - 2"
    using slt by linarith
  then show "list_all (\<lambda>j. 0 \<le> j \<and> j \<le> int (len h self) - 2) indices"
    by (auto simp: ind list_all_iff)
  have "map (\<lambda>j. storage (replays h ! self) ! nat j) indices =
          map (\<lambda>k. storage (replays h ! self) ! k) [?s..<?s + nat sz]"
    unfolding ind by (rule map_nth_shift)
  then show "sampled (sample h self sz True False g i) =
          Inr (map (\<lambda>j. storage (replays h ! self) ! nat j) indices)"
    using a assms ok by (simp add: sample_contiguous_eq sampled_def)
next
  assume "len h self = 0"
  then show "sampled (sample h self sz True False g i) = Inr []"
    by (simp add: sample_guard sampled_def)
next
  assume "sz = int (len h self)"
  then show "sample h self sz True False g i = Inl ValueError"
    using assms by (simp add: sample_contiguous_eq)
qed

theorem contiguous_sample_skips_last_witness:
  "(1::int) \<le> 6 \<and> 6 = int (len example_heap 0) \<and>
   sample example_heap 0 6 True False (draws 0) 0 = Inl ValueError \<and>
   1 \<le> len example_heap 0 \<and>
   transition_indices example_heap 0 5 True (draws 3) 0 = Inr [0, 1, 2, 3, 4] \<and>
   list_all (\<lambda>j. 0 \<le> j \<and> j \<le> int (len example_heap 0) - 2) [0, 1, 2, 3, 4] \<and>
   sampled (sample example_heap 0 5 True False (draws 3) 0) =
     Inr (map (\<lambda>j. storage (replays example_heap ! 0) ! nat j) [0, 1, 2, 3, 4])"
proof -
  have ti: "transition_indices example_heap 0 5 True (draws 3) 0 = Inr [0, 1, 2, 3, 4]"
    by (simp add: contiguous_indices len_def example_heap_def draws_def upt_rec [of 0] nat_numeral
          eval_nat_numeral)
  show ?thesis
    using contiguous_sample_skips_last [of 6 example_heap 0 "draws 0" 0]
          contiguous_sample_skips_last [of 5 example_heap 0 "draws 3" 0] ti
    by (simp add: len_def example_heap_def)
qed

section \<open>Transfer, concatenation, batched access and persistence: the claims\<close>




text \<open>
  Claim C5 at a failing input: the receiving replay is not vectorized, the other one is.
  \<^verbatim>\<open>__add__\<close> raises its assertion; \<^verbatim>\<open>__iadd__\<close> has no such check, raises
  nothing and extends the receiving replay.
\<close>

theorem iadd_mixed_flags:
  "vectorized (replays example_heap ! 0) \<noteq> vectorized (replays example_heap ! 2) \<and>
   add example_heap 0 2 = Inl AssertionError \<and>
   iadd example_heap 0 2 =
     Inr (0, example_heap\<lparr>replays := (replays example_heap)
               [0 := \<lparr>storage = [0, 1, 2, 3, 4, 5, 5], vectorized = False, device = None\<rparr>]\<rparr>)"
  by (simp add: add_def iadd_def example_heap_def)



text \<open>
  Claim C9. After \<^verbatim>\<open>x.save(path)\<close>, \<^verbatim>\<open>target.load(path)\<close> in any later store
  replaces the Record sequence of \<open>target\<close> by new objects that are, in order,
  field-for-field equal to the Records \<open>x\<close> held when it was saved; nothing else of the
  store changes.
\<close>

theorem save_load_roundtrip:
  assumes "target < length (replays h2)"
  shows "\<exists>h'. load h2 target path (save h x path fs) = Inr h' \<and>
           map (\<lambda>a. transitions h' ! a) (storage (replays h' ! target)) =
             map (\<lambda>a. transitions h ! a) (storage (replays h ! x)) \<and>
           take (length (transitions h2)) (transitions h') = transitions h2 \<and>
           (\<forall>r < length (replays h2). r \<noteq> target \<longrightarrow> replays h' ! r = replays h2 ! r) \<and>
           vectorized (replays h' ! target) = vectorized (replays h2 ! target) \<and>
           device (replays h' ! target) = device (replays h2 ! target)"
proof -
  let ?ts = "map (\<lambda>a. transitions h ! a) (storage (replays h ! x))"
  have "map (\<lambda>a. (transitions h2 @ ?ts) ! a)
          [length (transitions h2)..<length (transitions h2) + length ?ts] = ?ts"
    by (rule map_nth_append_suffix)
  then show ?thesis
    using assms by (simp add: load_def save_def)
qed

theorem save_load_roundtrip_witness:
  "1 < length (replays example_heap) \<and>
   (\<exists>h'. load example_heap 1 ''replay.pt'' (save example_heap 0 ''replay.pt'' Map.empty) = Inr h' \<and>
      map (\<lambda>a. transitions h' ! a) (storage (replays h' ! 1)) =
        map (\<lambda>a. transitions example_heap ! a) (storage (replays example_heap ! 0)))"
proof -
  have l: "1 < length (replays example_heap)" by (simp add: example_heap_def)
  from save_load_roundtrip [OF l, of "''replay.pt''" example_heap 0 "Map.empty"]
  show ?thesis using l by blast
qed

section \<open>Episode sampling: the claim\<close>



section \<open>Flattening: the claim\<close>



end
